theory Spec2Isabelle
  imports Complex_Main "HOL-Library.Product_Lexorder" "HOL-Library.Sublist" "HOL-Library.Log_Nat"
begin

section \<open>Data model of \<open>data_loader.py\<close>\<close>

text \<open>
  The loader holds \<open>None\<close> or an \<open>(n, 3)\<close> array of float64 values, and the voxel size is
  a float64 value. A float64 value is an infinity, a NaN, the negative zero, or a finite
  number \<open>Fin x\<close> (\<open>Fin 0\<close> is the positive zero). Every finite float64 number is some
  \<open>Fin x\<close>; the theorems below quantify over all \<open>Fin x\<close>, which covers them.
\<close>

datatype float64 = NegInf | Fin real | NZero | PosInf | NaN

type_synonym point = "float64 \<times> float64 \<times> float64"

record PointCloudLoader =
  filepath :: string
  points :: "point list option"

section \<open>float64 arithmetic\<close>

fun is_zero :: "float64 \<Rightarrow> bool" where
  "is_zero (Fin x) = (x = 0)"
| "is_zero NZero = True"
| "is_zero a = False"

fun is_inf :: "float64 \<Rightarrow> bool" where
  "is_inf NegInf = True"
| "is_inf PosInf = True"
| "is_inf a = False"

text \<open>The sign bit.\<close>

fun negative :: "float64 \<Rightarrow> bool" where
  "negative NegInf = True"
| "negative NZero = True"
| "negative (Fin x) = (x < 0)"
| "negative a = False"

fun value_of :: "float64 \<Rightarrow> real" where
  "value_of (Fin x) = x"
| "value_of a = 0"

text \<open>
  The comparisons \<open><=\<close> and \<open><\<close> of two float64 values: false when either is a NaN, the
  two zeros compare equal. \<open>ext\<close> places a value on the extended real line.
\<close>

fun ext :: "float64 \<Rightarrow> int \<times> real" where
  "ext NegInf = (- 1, 0)"
| "ext (Fin x) = (0, x)"
| "ext NZero = (0, 0)"
| "ext PosInf = (1, 0)"
| "ext NaN = (2, 0)"

definition fle :: "float64 \<Rightarrow> float64 \<Rightarrow> bool" where
  "fle a b = (a \<noteq> NaN \<and> b \<noteq> NaN \<and> ext a \<le> ext b)"

definition flt :: "float64 \<Rightarrow> float64 \<Rightarrow> bool" where
  "flt a b = (a \<noteq> NaN \<and> b \<noteq> NaN \<and> ext a < ext b)"

text \<open>Rounding to the nearest integer, halves to the even one.\<close>

definition rint :: "real \<Rightarrow> int" where
  "rint x =
     (let f = \<lfloor>x\<rfloor>; d = x - of_int f
      in if d < 1 / 2 then f
         else if 1 / 2 < d then f + 1
         else if even f then f else f + 1)"

text \<open>The binary exponent of a positive number: \<open>2 ^ ilog2 x \<le> x < 2 ^ (ilog2 x + 1)\<close>.\<close>

definition ilog2 :: "real \<Rightarrow> int" where
  "ilog2 x =
     (if 1 \<le> x then int (floorlog 2 (nat \<lfloor>x\<rfloor>)) - 1
      else - int (floorlog 2 (nat (\<lceil>1 / x\<rceil> - 1))))"

definition pow2 :: "int \<Rightarrow> real" where
  "pow2 e = (if 0 \<le> e then 2 ^ nat e else 1 / 2 ^ nat (- e))"

text \<open>
  The float64 value nearest to a real number (ties to the even significand): 53
  significant bits, exponents down to the subnormal range, and an infinity from
  \<open>2 ^ 1024\<close> on. This is how a float64 operation rounds its exact result, and how a
  decimal literal is read. \<open>ulp_of a\<close> is the spacing of the float64 numbers around
  \<open>a > 0\<close>; \<open>pack\<close> builds the value from the sign, the rounded multiple and the spacing.
\<close>

definition ulp_of :: "real \<Rightarrow> real" where
  "ulp_of a = pow2 (max (ilog2 a) (- 1022) - 52)"

definition pack :: "bool \<Rightarrow> int \<Rightarrow> real \<Rightarrow> float64" where
  "pack neg n ulp =
     (if 2 ^ 1024 \<le> of_int n * ulp then (if neg then NegInf else PosInf)
      else if n = 0 then (if neg then NZero else Fin 0)
      else Fin (if neg then - (of_int n * ulp) else of_int n * ulp))"

definition round_double :: "real \<Rightarrow> float64" where
  "round_double q =
     (if q = 0 then Fin 0
      else pack (q < 0) (rint (\<bar>q\<bar> / ulp_of \<bar>q\<bar>)) (ulp_of \<bar>q\<bar>))"

text \<open>\<open>a / b\<close> on float64 values; numpy raises nothing here, it only warns.\<close>

definition fdiv :: "float64 \<Rightarrow> float64 \<Rightarrow> float64" where
  "fdiv a b =
     (if a = NaN \<or> b = NaN then NaN
      else if (is_inf a \<and> is_inf b) \<or> (is_zero a \<and> is_zero b) then NaN
      else if is_inf a \<or> is_zero b then (if negative a \<noteq> negative b then NegInf else PosInf)
      else if is_inf b \<or> is_zero a then (if negative a \<noteq> negative b then NZero else Fin 0)
      else round_double (value_of a / value_of b))"

text \<open>
  A value of \<open>np.round\<close>: an integer, an infinity or a NaN. \<open>np.round\<close> of a float64
  number is an integer that float64 holds exactly. It can be the negative zero, which
  the sort and \<open>!=\<close> below do not tell from the positive one, so no sign of zero is kept.
\<close>

datatype kval = KNegInf | KFin int | KPosInf | KNaN

type_synonym row = "kval \<times> kval \<times> kval"

fun np_round :: "float64 \<Rightarrow> kval" where
  "np_round (Fin x) = KFin (rint x)"
| "np_round NZero = KFin 0"
| "np_round NegInf = KNegInf"
| "np_round PosInf = KPosInf"
| "np_round NaN = KNaN"

text \<open>The order numpy sorts float64 values by: NaN goes last.\<close>

fun kval_le :: "kval \<Rightarrow> kval \<Rightarrow> bool" where
  "kval_le KNegInf b = True"
| "kval_le (KFin x) KNegInf = False"
| "kval_le (KFin x) (KFin y) = (x \<le> y)"
| "kval_le (KFin x) KPosInf = True"
| "kval_le (KFin x) KNaN = True"
| "kval_le KPosInf KNegInf = False"
| "kval_le KPosInf (KFin y) = False"
| "kval_le KPosInf KPosInf = True"
| "kval_le KPosInf KNaN = True"
| "kval_le KNaN KNaN = True"
| "kval_le KNaN b = False"

instantiation kval :: linorder
begin

definition less_eq_kval :: "kval \<Rightarrow> kval \<Rightarrow> bool" where
  "less_eq_kval a b = kval_le a b"

definition less_kval :: "kval \<Rightarrow> kval \<Rightarrow> bool" where
  "less_kval a b = (kval_le a b \<and> \<not> kval_le b a)"

instance
proof
  fix x y z :: kval
  show "(x < y) = (x \<le> y \<and> \<not> y \<le> x)"
    by (simp add: less_eq_kval_def less_kval_def)
  show "x \<le> x"
    by (cases x) (simp_all add: less_eq_kval_def)
  show "x \<le> y \<Longrightarrow> y \<le> z \<Longrightarrow> x \<le> z"
    by (cases x; cases y; cases z) (simp_all add: less_eq_kval_def)
  show "x \<le> y \<Longrightarrow> y \<le> x \<Longrightarrow> x = y"
    by (cases x; cases y) (simp_all add: less_eq_kval_def)
  show "x \<le> y \<or> y \<le> x"
    by (cases x; cases y) (auto simp add: less_eq_kval_def)
qed

end

text \<open>The comparison \<open>==\<close> of two rounded values: a NaN equals nothing, itself included.\<close>

definition keq :: "kval \<Rightarrow> kval \<Rightarrow> bool" where
  "keq a b = (a \<noteq> KNaN \<and> b \<noteq> KNaN \<and> a = b)"


section \<open>\<open>np.unique(rounded, axis=0, return_index=True)\<close>\<close>

text \<open>
  numpy views each row as one structured element, sorts the row indices with a stable
  merge sort (rows compare field by field), marks every sorted row that differs from its
  predecessor, and returns the indices at the marked positions. Any stable sort returns
  the same permutation, so the library's stable insertion sort stands for the merge sort.
\<close>

definition argsort :: "row list \<Rightarrow> nat list" where
  "argsort ar = sort_key (\<lambda>i. ar ! i) [0..<length ar]"

fun row_ne :: "row \<Rightarrow> row \<Rightarrow> bool" where
  "row_ne (a, b, c) (a', b', c') = (\<not> keq a a' \<or> \<not> keq b b' \<or> \<not> keq c c')"

text \<open>\<open>mask[:1] = True; mask[1:] = aux[1:] != aux[:-1]\<close>\<close>

fun run_mask :: "row list \<Rightarrow> bool list" where
  "run_mask [] = []"
| "run_mask (a # as) = True # map (\<lambda>(x, y). row_ne x y) (zip as (a # as))"

text \<open>Indexing an array by a boolean mask of the same length.\<close>

definition bool_index :: "'a list \<Rightarrow> bool list \<Rightarrow> 'a list" where
  "bool_index xs msk = map fst (filter snd (zip xs msk))"

definition np_unique_index :: "row list \<Rightarrow> nat list" where
  "np_unique_index ar =
     (let perm = argsort ar;
          aux = map (\<lambda>i. ar ! i) perm;
          msk = run_mask aux
      in bool_index perm msk)"

section \<open>The methods of \<open>PointCloudLoader\<close>\<close>

text \<open>
  Every method takes the loader and returns its result together with the loader after
  the call. What the methods print is not modelled, and neither is \<open>load_points\<close>, which
  reads the file: a loader is taken with whatever \<open>points\<close> it holds.
\<close>

text \<open>One row of \<open>np.round(self.points / voxel_size)\<close>.\<close>

definition voxel_key :: "float64 \<Rightarrow> point \<Rightarrow> row" where
  "voxel_key voxel_size p =
     (case p of (x, y, z) \<Rightarrow>
        (np_round (fdiv x voxel_size), np_round (fdiv y voxel_size),
         np_round (fdiv z voxel_size)))"

text \<open>\<open>self.points[unique_indices]\<close>: a new array holding the rows at the given indices.\<close>

definition take_rows :: "point list \<Rightarrow> nat list \<Rightarrow> point list" where
  "take_rows P idx = map (\<lambda>i. P ! i) idx"

definition downsample_indices :: "float64 \<Rightarrow> point list \<Rightarrow> nat list" where
  "downsample_indices voxel_size P = np_unique_index (map (voxel_key voxel_size) P)"

definition downsample ::
  "PointCloudLoader \<Rightarrow> float64 \<Rightarrow> point list option \<times> PointCloudLoader" where
  "downsample self voxel_size =
     (case points self of
        None \<Rightarrow> (None, self)
      | Some P \<Rightarrow>
          (let rounded = map (voxel_key voxel_size) P;
               unique_indices = np_unique_index rounded;
               downsampled = take_rows P unique_indices
           in (Some downsampled, self)))"

definition filter_by_y_range ::
  "PointCloudLoader \<Rightarrow> float64 \<Rightarrow> float64 \<Rightarrow> point list option \<times> PointCloudLoader" where
  "filter_by_y_range self y_min y_max =
     (case points self of
        None \<Rightarrow> (None, self)
      | Some P \<Rightarrow>
          (let msk = map (\<lambda>p. fle y_min (fst (snd p)) \<and> fle (fst (snd p)) y_max) P;
               filtered = bool_index P msk
           in (Some filtered, self)))"

text \<open>
  \<open>get_summary\<close> reduces the three columns with \<open>np.mean\<close>, \<open>np.min\<close> and \<open>np.max\<close>. The
  three reductions are parameters. On an array with no rows \<open>np.min\<close> raises
  \<open>ValueError\<close>; that is the only exception these methods can raise.
\<close>

datatype error = ValueError

record summary =
  num_points :: nat
  mean :: "float64 list"
  min_v :: "float64 list"
  max_v :: "float64 list"

definition get_summary ::
  "(point list \<Rightarrow> float64 list) \<Rightarrow> (point list \<Rightarrow> float64 list) \<Rightarrow>
   (point list \<Rightarrow> float64 list) \<Rightarrow> PointCloudLoader \<Rightarrow>
   (error + summary option) \<times> PointCloudLoader" where
  "get_summary np_mean np_min np_max self =
     (case points self of
        None \<Rightarrow> (Inr None, self)
      | Some P \<Rightarrow>
          if P = [] then (Inl ValueError, self)
          else (Inr (Some \<lparr>num_points = length P,
                           mean = np_mean P,
                           min_v = np_min P,
                           max_v = np_max P\<rparr>), self))"

section \<open>Auxiliary notions for the proofs\<close>

text \<open>A row none of whose fields is a NaN; on such rows \<open>!=\<close> is plain inequality.\<close>

fun no_nan :: "row \<Rightarrow> bool" where
  "no_nan (a, b, c) = (a \<noteq> KNaN \<and> b \<noteq> KNaN \<and> c \<noteq> KNaN)"

text \<open>
  The elements of a list whose key differs (under \<open>!=\<close>) from the key of their
  predecessor, \<open>p\<close> being the predecessor of the first one; \<open>firsts\<close> adds the head of the
  list. This is what the mask of \<open>np.unique\<close> selects, written as a recursion.
\<close>

fun changes :: "('a \<Rightarrow> row) \<Rightarrow> 'a \<Rightarrow> 'a list \<Rightarrow> 'a list" where
  "changes f p [] = []"
| "changes f p (y # ys) =
     (if row_ne (f y) (f p) then y # changes f y ys else changes f y ys)"

definition firsts :: "('a \<Rightarrow> row) \<Rightarrow> 'a list \<Rightarrow> 'a list" where
  "firsts f xs = (case xs of [] \<Rightarrow> [] | p # ys \<Rightarrow> p # changes f p ys)"

text \<open>A list of rows each of which differs (under \<open>!=\<close>) from its predecessor.\<close>

fun chain_ne :: "row list \<Rightarrow> bool" where
  "chain_ne [] = True"
| "chain_ne [a] = True"
| "chain_ne (a # b # bs) = (row_ne b a \<and> chain_ne (b # bs))"

text \<open>
  The source keeps the rounded rows as float64 values and never converts them to machine
  integers. To speak of a key component that does not fit an integer type, the range
  \<open>[lo, hi]\<close> of that type is a parameter; an infinity or a NaN fits no range.
\<close>

fun out_of_range :: "int \<Rightarrow> int \<Rightarrow> kval \<Rightarrow> bool" where
  "out_of_range lo hi (KFin k) = (k < lo \<or> hi < k)"
| "out_of_range lo hi KNegInf = True"
| "out_of_range lo hi KPosInf = True"
| "out_of_range lo hi KNaN = True"

fun key_overflows :: "int \<Rightarrow> int \<Rightarrow> row \<Rightarrow> bool" where
  "key_overflows lo hi (a, b, c) =
     (out_of_range lo hi a \<or> out_of_range lo hi b \<or> out_of_range lo hi c)"

section \<open>The binary exponent\<close>

text \<open>\<open>ilog2\<close> is the exponent of the power of two at or below a positive number.\<close>

lemma floorlog_window:
  assumes "0 < n"
  shows "0 < floorlog 2 n \<and> (2::real) ^ (floorlog 2 n - 1) \<le> real n
         \<and> real n + 1 \<le> 2 ^ floorlog 2 n"
proof -
  let ?k = "floorlog 2 n"
  have b: "2 ^ (?k - 1) \<le> n \<and> n < 2 ^ ?k"
    using floorlog_bounds [of n 2] assms by simp
  have k: "0 < ?k" using assms floorlog_eq_zero_iff [of 2 n] by auto
  have "real (2 ^ (?k - 1)) \<le> real n" using b by (simp only: of_nat_le_iff)
  then have lo: "(2::real) ^ (?k - 1) \<le> real n" by simp
  have "n + 1 \<le> 2 ^ ?k" using b by simp
  then have "real (n + 1) \<le> real (2 ^ ?k)" by (simp only: of_nat_le_iff)
  then have hi: "real n + 1 \<le> 2 ^ ?k" by simp
  show ?thesis using k lo hi by simp
qed

lemma ilog2_ge1:
  assumes "1 \<le> x"
  shows "pow2 (ilog2 x) \<le> x \<and> x < pow2 (ilog2 x + 1)"
proof -
  define n where "n = nat \<lfloor>x\<rfloor>"
  define k where "k = floorlog 2 n"
  have fl: "1 \<le> \<lfloor>x\<rfloor>" using assms by simp
  then have n: "0 < n" by (simp add: n_def)
  have rn: "real n = of_int \<lfloor>x\<rfloor>" using fl by (simp add: n_def)
  have nx: "real n \<le> x" unfolding rn by linarith
  have xn: "x < real n + 1" unfolding rn by linarith
  have w: "0 < k" "(2::real) ^ (k - 1) \<le> real n" "real n + 1 \<le> 2 ^ k"
    using floorlog_window [OF n] by (simp_all add: k_def)
  have e: "ilog2 x = int k - 1" using assms by (simp add: ilog2_def n_def k_def)
  have p1: "pow2 (int k - 1) = 2 ^ (k - 1)"
    using w(1) by (simp add: pow2_def nat_diff_distrib)
  have p2: "pow2 (int k - 1 + 1) = 2 ^ k"
    by (simp add: pow2_def)
  have "2 ^ (k - 1) \<le> x" using w(2) nx by linarith
  moreover have "x < 2 ^ k" using w(3) xn by linarith
  ultimately show ?thesis by (simp only: e p1 p2)
qed

lemma ilog2_lt1:
  assumes "0 < x" and "x < 1"
  shows "pow2 (ilog2 x) \<le> x \<and> x < pow2 (ilog2 x + 1)"
proof -
  define y where "y = 1 / x"
  define n where "n = nat (\<lceil>y\<rceil> - 1)"
  define k where "k = floorlog 2 n"
  have y: "1 < y" using assms by (simp add: y_def)
  then have c: "2 \<le> \<lceil>y\<rceil>" by linarith
  then have n: "0 < n" by (simp add: n_def)
  have "real n = of_int (\<lceil>y\<rceil> - 1)" using c by (simp add: n_def)
  then have rn: "real n = of_int \<lceil>y\<rceil> - 1" by simp
  have ny: "real n < y" unfolding rn by linarith
  have yn: "y \<le> real n + 1" unfolding rn by linarith
  have w: "0 < k" "(2::real) ^ (k - 1) \<le> real n" "real n + 1 \<le> 2 ^ k"
    using floorlog_window [OF n] by (simp_all add: k_def)
  have lo: "2 ^ (k - 1) < y" using w(2) ny by linarith
  have hi: "y \<le> 2 ^ k" using w(3) yn by linarith
  have x1: "1 / 2 ^ k \<le> x"
    using hi assms(1) by (simp add: y_def field_simps)
  have x2: "x < 1 / 2 ^ (k - 1)"
    using lo assms(1) by (simp add: y_def field_simps)
  have e: "ilog2 x = - int k" using assms by (simp add: ilog2_def n_def k_def y_def)
  have p1: "pow2 (- int k) = 1 / 2 ^ k"
    using w(1) by (simp add: pow2_def)
  have p2: "pow2 (- int k + 1) = 1 / 2 ^ (k - 1)"
  proof (cases "k = 1")
    case True
    then show ?thesis by (simp add: pow2_def)
  next
    case False
    with w(1) have "2 \<le> k" by simp
    then have "\<not> 0 \<le> - int k + 1" and "nat (- (- int k + 1)) = k - 1" by simp_all
    then show ?thesis by (simp add: pow2_def)
  qed
  show ?thesis using x1 x2 by (simp only: e p1 p2)
qed

lemma ilog2_bounds:
  "0 < x \<Longrightarrow> pow2 (ilog2 x) \<le> x \<and> x < pow2 (ilog2 x + 1)"
  using ilog2_ge1 [of x] ilog2_lt1 [of x] by (cases "1 \<le> x") simp_all

section \<open>Boolean-mask selection\<close>

lemma bool_index_map: "bool_index xs (map P xs) = filter P xs"
  by (induction xs) (simp_all add: bool_index_def)

lemma set_bool_index: "set (bool_index xs m) \<subseteq> set xs"
  unfolding bool_index_def by (auto dest: set_zip_leftD)

lemma bool_index_Cons:
  "bool_index (x # xs) (b # bs) = (if b then x # bool_index xs bs else bool_index xs bs)"
  by (simp add: bool_index_def)

lemma bool_index_Nil: "bool_index [] m = []" "bool_index xs [] = []"
  by (simp_all add: bool_index_def)

section \<open>Properties of the unique-row selection\<close>

lemma row_ne_no_nan: "no_nan r \<Longrightarrow> no_nan s \<Longrightarrow> row_ne r s = (r \<noteq> s)"
  by (cases r; cases s) (auto simp add: keq_def)

lemma row_ne_eq: "\<not> row_ne r s \<Longrightarrow> r = s"
  by (cases r; cases s) (simp add: keq_def)

lemma bool_index_changes:
  "bool_index xs (map (\<lambda>(a, b). row_ne a b) (zip (map f xs) (map f (p # xs)))) = changes f p xs"
proof (induction xs arbitrary: p)
  case Nil
  show ?case by (simp add: bool_index_Nil)
next
  case (Cons y ys)
  let ?B = "bool_index ys (map (\<lambda>(a, b). row_ne a b) (zip (map f ys) (map f (y # ys))))"
  have ih: "?B = changes f y ys" by (rule Cons.IH)
  have "bool_index (y # ys) (map (\<lambda>(a, b). row_ne a b) (zip (map f (y # ys)) (map f (p # y # ys))))
          = (if row_ne (f y) (f p) then y # ?B else ?B)"
    by (simp add: bool_index_Cons)
  then show ?case by (simp only: ih changes.simps)
qed

lemma bool_index_run_mask: "bool_index xs (run_mask (map f xs)) = firsts f xs"
proof (cases xs)
  case Nil
  then show ?thesis by (simp add: firsts_def bool_index_Nil)
next
  case (Cons p ys)
  then show ?thesis
    using bool_index_changes [of ys f p] by (simp add: firsts_def bool_index_Cons)
qed

text \<open>What holds of the selection on any rows, NaN included.\<close>

lemma changes_subset: "set (changes f p xs) \<subseteq> set xs"
  by (induction xs arbitrary: p) auto

lemma changes_length: "length (changes f p xs) \<le> length xs"
  by (induction xs arbitrary: p) (auto simp add: le_SucI)

lemma changes_image: "f ` set (p # changes f p xs) = f ` set (p # xs)"
proof (induction xs arbitrary: p)
  case Nil
  show ?case by simp
next
  case (Cons y ys)
  have ih: "f ` set (y # changes f y ys) = f ` set (y # ys)" by (rule Cons.IH)
  show ?case
  proof (cases "row_ne (f y) (f p)")
    case False
    then have eq: "f y = f p" by (rule row_ne_eq)
    have "f ` set (p # changes f p (y # ys)) = insert (f y) (f ` set (changes f y ys))"
      using False eq by simp
    also have "\<dots> = f ` set (y # changes f y ys)" by simp
    also have "\<dots> = f ` set (y # ys)" by (rule ih)
    finally show ?thesis using eq by simp
  next
    case True
    have "f ` set (p # changes f p (y # ys)) = insert (f p) (f ` set (y # changes f y ys))"
      using True by simp
    then show ?thesis using ih by simp
  qed
qed

lemma changes_sorted:
  "sorted (map f (p # xs)) \<Longrightarrow> sorted (map f (p # changes f p xs))"
proof (induction xs arbitrary: p)
  case Nil
  then show ?case by simp
next
  case (Cons y ys)
  have le: "f p \<le> f y" and srt: "sorted (map f (y # ys))"
    using Cons.prems by simp_all
  have ih: "sorted (map f (y # changes f y ys))" using Cons.IH srt by blast
  then have "\<forall>t \<in> set (changes f y ys). f y \<le> f t" by simp
  with le have "\<forall>t \<in> set (changes f y ys). f p \<le> f t" by auto
  with ih le show ?case by simp
qed

lemma changes_chain: "chain_ne (map f (p # changes f p xs))"
proof (induction xs arbitrary: p)
  case Nil
  show ?case by simp
next
  case (Cons y ys)
  have ih: "chain_ne (map f (y # changes f y ys))" by (rule Cons.IH)
  show ?case
  proof (cases "row_ne (f y) (f p)")
    case True
    with ih show ?thesis by simp
  next
    case False
    then have "f y = f p" by (rule row_ne_eq)
    with False ih show ?thesis by simp
  qed
qed

lemma changes_id: "chain_ne (map f (p # xs)) \<Longrightarrow> changes f p xs = xs"
  by (induction xs arbitrary: p) auto

lemma firsts_id: "chain_ne (map f xs) \<Longrightarrow> firsts f xs = xs"
  using changes_id [of f] by (cases xs) (simp_all add: firsts_def)

lemma firsts_image: "f ` set (firsts f xs) = f ` set xs"
  using changes_image [of f] by (cases xs) (simp_all add: firsts_def)

lemma firsts_sorted: "sorted (map f xs) \<Longrightarrow> sorted (map f (firsts f xs))"
  using changes_sorted [of f] by (cases xs) (simp_all add: firsts_def)

lemma firsts_chain: "chain_ne (map f (firsts f xs))"
  using changes_chain [of f] by (cases xs) (simp_all add: firsts_def)

lemma firsts_length: "length (firsts f xs) \<le> length xs"
  using changes_length [of f] by (cases xs) (simp_all add: firsts_def)

text \<open>What holds when no row has a NaN.\<close>

lemma sorted_chain_strict:
  "sorted ks \<Longrightarrow> chain_ne ks \<Longrightarrow> \<forall>k \<in> set ks. no_nan k \<Longrightarrow> sorted_wrt (<) ks"
proof (induction ks rule: chain_ne.induct)
  case 1
  show ?case by simp
next
  case (2 a)
  show ?case by simp
next
  case (3 a b bs)
  have ab: "a \<le> b" and rest: "\<forall>k \<in> set bs. b \<le> k" using "3.prems"(1) by auto
  have "a \<noteq> b" using "3.prems"(2,3) by (auto simp add: row_ne_no_nan)
  with ab have lt: "a < b" by simp
  with rest have "\<forall>k \<in> set bs. a < k" by auto
  moreover have "sorted_wrt (<) (b # bs)" using "3.IH" "3.prems" by simp
  ultimately show ?case using lt by simp
qed

lemma firsts_strict:
  assumes "sorted (map f xs)" and "\<forall>x \<in> set xs. no_nan (f x)"
  shows "sorted_wrt (<) (map f (firsts f xs))"
proof -
  have "set (firsts f xs) \<subseteq> set xs"
    using changes_subset [of f] by (cases xs) (auto simp add: firsts_def)
  then have "\<forall>k \<in> set (map f (firsts f xs)). no_nan k" using assms(2) by auto
  with firsts_sorted [OF assms(1)] firsts_chain [of f xs] show ?thesis
    by (rule sorted_chain_strict)
qed




lemma set_argsort: "set (argsort ar) = {0..<length ar}"
  by (simp add: argsort_def)

lemma sorted_argsort: "sorted (map (\<lambda>i. ar ! i) (argsort ar))"
  by (simp add: argsort_def)

lemma np_unique_index_firsts: "np_unique_index ar = firsts (\<lambda>i. ar ! i) (argsort ar)"
  by (simp add: np_unique_index_def Let_def bool_index_run_mask)

lemma np_unique_index_bound: "i \<in> set (np_unique_index ar) \<Longrightarrow> i < length ar"
proof -
  assume "i \<in> set (np_unique_index ar)"
  then have "i \<in> set (argsort ar)"
    using set_bool_index [of "argsort ar"] by (auto simp add: np_unique_index_def Let_def)
  then show ?thesis by (simp add: set_argsort)
qed

lemma np_unique_index_le: "length (np_unique_index ar) \<le> length ar"
  using firsts_length [of "\<lambda>i. ar ! i" "argsort ar"]
  by (simp add: np_unique_index_firsts argsort_def)

lemma np_unique_index_sorted: "sorted (map (\<lambda>i. ar ! i) (np_unique_index ar))"
  using firsts_sorted [OF sorted_argsort] by (simp add: np_unique_index_firsts)

lemma np_unique_index_chain: "chain_ne (map (\<lambda>i. ar ! i) (np_unique_index ar))"
  using firsts_chain [of "\<lambda>i. ar ! i"] by (simp add: np_unique_index_firsts)

lemma np_unique_index_image: "(\<lambda>i. ar ! i) ` set (np_unique_index ar) = set ar"
proof -
  have "(\<lambda>i. ar ! i) ` set (np_unique_index ar) = (\<lambda>i. ar ! i) ` {0..<length ar}"
    using firsts_image [of "\<lambda>i. ar ! i" "argsort ar"]
    by (simp add: np_unique_index_firsts set_argsort)
  also have "\<dots> = set (map (\<lambda>i. ar ! i) [0..<length ar])" by simp
  also have "\<dots> = set ar" by (simp only: map_nth)
  finally show ?thesis .
qed

lemma argsort_no_nan: "\<forall>r \<in> set ar. no_nan r \<Longrightarrow> \<forall>x \<in> set (argsort ar). no_nan (ar ! x)"
  by (simp add: set_argsort)

lemma np_unique_index_strict:
  assumes "\<forall>r \<in> set ar. no_nan r"
  shows "sorted_wrt (<) (map (\<lambda>i. ar ! i) (np_unique_index ar))"
  using firsts_strict [OF sorted_argsort argsort_no_nan [OF assms]]
  by (simp add: np_unique_index_firsts)


lemma np_unique_index_length:
  assumes "\<forall>r \<in> set ar. no_nan r"
  shows "length (np_unique_index ar) = card (set ar)"
proof -
  let ?U = "np_unique_index ar"
  have "distinct (map (\<lambda>i. ar ! i) ?U)"
    using np_unique_index_strict [OF assms] by (simp add: strict_sorted_iff)
  then have "card (set (map (\<lambda>i. ar ! i) ?U)) = length (map (\<lambda>i. ar ! i) ?U)"
    by (rule distinct_card)
  then show ?thesis
    using np_unique_index_image [of ar] by simp
qed

lemma np_unique_index_id:
  assumes srt: "sorted ar" and ch: "chain_ne ar"
  shows "np_unique_index ar = [0..<length ar]"
proof -
  have m: "map (\<lambda>i. ar ! i) [0..<length ar] = ar" by (rule map_nth)
  have "argsort ar = [0..<length ar]"
    unfolding argsort_def by (intro sort_key_id_if_sorted) (simp only: m srt)
  moreover have "firsts (\<lambda>i. ar ! i) [0..<length ar] = [0..<length ar]"
    by (rule firsts_id) (simp only: m ch)
  ultimately show ?thesis by (simp add: np_unique_index_firsts)
qed

section \<open>From \<open>np.unique\<close> to \<open>downsample\<close>\<close>

lemma downsample_Some:
  "points self = Some P \<Longrightarrow>
   fst (downsample self v) = Some (take_rows P (downsample_indices v P))"
  by (simp add: downsample_def downsample_indices_def Let_def)

lemma downsample_indices_bound:
  "i \<in> set (downsample_indices v P) \<Longrightarrow> i < length P"
  using np_unique_index_bound [of i "map (voxel_key v) P"]
  by (simp add: downsample_indices_def)

lemma downsample_subset: "set (take_rows P (downsample_indices v P)) \<subseteq> set P"
  using downsample_indices_bound [of _ v P] by (auto simp add: take_rows_def)

lemma keys_of_rows:
  "map (voxel_key v) (take_rows P (downsample_indices v P))
     = map (\<lambda>i. map (voxel_key v) P ! i) (downsample_indices v P)"
  using downsample_indices_bound [of _ v P] by (simp add: take_rows_def)

lemma downsample_keys_sorted:
  "sorted (map (voxel_key v) (take_rows P (downsample_indices v P)))"
  unfolding keys_of_rows
  using np_unique_index_sorted [of "map (voxel_key v) P"]
  by (simp only: downsample_indices_def)

lemma downsample_keys_chain:
  "chain_ne (map (voxel_key v) (take_rows P (downsample_indices v P)))"
  unfolding keys_of_rows
  using np_unique_index_chain [of "map (voxel_key v) P"]
  by (simp only: downsample_indices_def)


lemma keys_no_nan:
  "\<forall>p \<in> set P. no_nan (voxel_key v p) \<Longrightarrow> \<forall>r \<in> set (map (voxel_key v) P). no_nan r"
  by simp

lemma downsample_keys_strict:
  assumes "\<forall>p \<in> set P. no_nan (voxel_key v p)"
  shows "sorted_wrt (<) (map (voxel_key v) (take_rows P (downsample_indices v P)))"
  unfolding keys_of_rows
  using np_unique_index_strict [OF keys_no_nan [OF assms]]
  by (simp only: downsample_indices_def)


lemma downsample_length_card:
  assumes "\<forall>p \<in> set P. no_nan (voxel_key v p)"
  shows "length (take_rows P (downsample_indices v P)) = card (set (map (voxel_key v) P))"
  using np_unique_index_length [OF keys_no_nan [OF assms]]
  by (simp add: take_rows_def downsample_indices_def)

lemma downsample_length_le: "length (take_rows P (downsample_indices v P)) \<le> length P"
  using np_unique_index_le [of "map (voxel_key v) P"]
  by (simp add: take_rows_def downsample_indices_def)

lemma take_rows_all: "take_rows xs [0..<length xs] = xs"
  by (simp add: take_rows_def map_nth)

lemma downsample_fixed:
  "take_rows (take_rows P (downsample_indices v P))
     (downsample_indices v (take_rows P (downsample_indices v P)))
   = take_rows P (downsample_indices v P)"
proof -
  let ?out = "take_rows P (downsample_indices v P)"
  have "np_unique_index (map (voxel_key v) ?out) = [0..<length (map (voxel_key v) ?out)]"
    using downsample_keys_sorted downsample_keys_chain by (rule np_unique_index_id)
  then have "downsample_indices v ?out = [0..<length ?out]"
    by (simp add: downsample_indices_def)
  then show ?thesis by (simp only: take_rows_all)
qed



text \<open>A positive finite voxel size and coordinates that are no NaN give keys without a NaN.\<close>

lemma round_double_no_nan: "round_double q \<noteq> NaN"
  by (simp add: round_double_def pack_def)

lemma np_round_nan: "np_round a = KNaN \<longleftrightarrow> a = NaN"
  by (cases a) simp_all

lemma flt_zero_cases: "flt (Fin 0) v \<Longrightarrow> v = PosInf \<or> (\<exists>x. v = Fin x \<and> 0 < x)"
  by (cases v) (simp_all add: flt_def)

lemma voxel_key_no_nan_finite_size:
  assumes "flt (Fin 0) v" and "v \<noteq> PosInf" and "x \<noteq> NaN" and "y \<noteq> NaN" and "z \<noteq> NaN"
  shows "no_nan (voxel_key v (x, y, z))"
proof -
  obtain r where v: "v = Fin r" and r: "0 < r"
    using flt_zero_cases [OF assms(1)] assms(2) by auto
  have "\<And>a. a \<noteq> NaN \<Longrightarrow> fdiv a (Fin r) \<noteq> NaN"
  proof -
    fix a :: float64
    assume "a \<noteq> NaN"
    then show "fdiv a (Fin r) \<noteq> NaN"
      using r by (cases a) (simp_all add: fdiv_def round_double_no_nan)
  qed
  then show ?thesis using assms(3-5) by (simp add: voxel_key_def v np_round_nan)
qed

text \<open>
  The equations that evaluate \<open>downsample\<close> on a concrete point set. In the instances
  below a decimal literal of the input file stands as \<open>round_double\<close> of its value, the
  float64 number it is read as.
\<close>

lemma floor_minus_one_real: "\<lfloor>- 1 :: real\<rfloor> = - 1"
  using floor_of_int [of "- 1", where ?'a = real] by simp

lemmas run_simps =
  downsample_def downsample_indices_def take_rows_def np_unique_index_def argsort_def
  voxel_key_def fdiv_def round_double_def pack_def ulp_of_def ilog2_def pow2_def rint_def
  compute_floorlog Let_def bool_index_def keq_def less_eq_kval_def less_kval_def
  upt_conv_Cons floor_minus_one_real

text \<open>
  Some float64 quotients and their keys. \<open>0.75 / 0.1\<close> is the float64 number 7.5, with
  key 8, where the exact quotient of the two float64 numbers lies below 7.5.
\<close>

lemma float_division_examples:
  "fdiv (Fin (3 / 4)) (round_double (1 / 10)) = Fin (15 / 2)"
  "np_round (fdiv (Fin (3 / 4)) (round_double (1 / 10))) = KFin 8"
  "np_round (fdiv (round_double (8 / 10)) (round_double (1 / 10))) = KFin 8"
  "np_round (fdiv (round_double (7 / 10)) (round_double (1 / 10))) = KFin 7"
  "np_round (fdiv (Fin 1) (round_double (1 / 10))) = KFin 10"
  by (simp_all add: run_simps)

text \<open>
  At voxel size 0.1 the quotients \<open>0.75 / 0.1\<close> and \<open>0.8 / 0.1\<close> are the float64 numbers
  7.5 and 8.0, both with key 8, so the second row is dropped. The quotients of \<open>2 ^ 1023\<close>
  and \<open>2 ^ 1022\<close> by 0.25 both overflow to the infinity, and the rows are merged as
  well; so are \<open>10 ^ 16\<close> and \<open>10 ^ 16 + 2\<close> at voxel size 3.
\<close>

lemma downsample_merge_example:
  "fst (downsample \<lparr>filepath = ''cloud.txt'',
          points = Some [(Fin (3 / 4), Fin 0, Fin 0), (round_double (8 / 10), Fin 0, Fin 0)]\<rparr>
        (round_double (1 / 10)))
     = Some [(Fin (3 / 4), Fin 0, Fin 0)]"
  by (simp add: run_simps)


lemma downsample_overflow_to_infinity_example:
  "fst (downsample \<lparr>filepath = ''cloud.txt'',
          points = Some [(Fin (2 ^ 1023), Fin 0, Fin 0), (Fin (2 ^ 1022), Fin 0, Fin 0)]\<rparr>
        (Fin (1 / 4)))
     = Some [(Fin (2 ^ 1023), Fin 0, Fin 0)]"
  by (simp add: run_simps)

lemma downsample_large_example:
  "fst (downsample \<lparr>filepath = ''cloud.txt'',
          points = Some [(Fin (10 ^ 16), Fin 0, Fin 0), (Fin (10 ^ 16 + 2), Fin 0, Fin 0)]\<rparr>
        (Fin 3))
     = Some [(Fin (10 ^ 16), Fin 0, Fin 0)]"
  by (simp add: run_simps)

section \<open>Order of the output\<close>

text \<open>
  C1 (amended). The claim asks for the output in ascending order of original index. The
  source takes the indices from \<open>np.unique\<close>, which returns them in the order of the
  sorted unique rows. What holds instead: for every loaded point set and every voxel
  size \<open>v > 0\<close>, the points of the output appear in ascending lexicographic order of their
  voxel keys (x key first, then y, then z; a NaN after every number), and in strictly
  ascending order when no voxel key of the input has a NaN.
\<close>

theorem downsample_key_order:
  assumes "points self = Some P" and "flt (Fin 0) v"
  shows "\<exists>out. fst (downsample self v) = Some out
           \<and> sorted (map (voxel_key v) out)
           \<and> ((\<forall>p \<in> set P. no_nan (voxel_key v p)) \<longrightarrow>
                 sorted_wrt (<) (map (voxel_key v) out))"
  using assms(1) downsample_keys_sorted [of v P] downsample_keys_strict [of P v]
  by (simp add: downsample_Some)

theorem downsample_key_order_witness:
  "fst (downsample \<lparr>filepath = ''cloud.txt'',
          points = Some [(round_double (7 / 10), Fin 1, Fin 0), (Fin (3 / 4), Fin 0, Fin 0)]\<rparr>
        (round_double (1 / 10)))
     = Some [(round_double (7 / 10), Fin 1, Fin 0), (Fin (3 / 4), Fin 0, Fin 0)]
   \<and> map (voxel_key (round_double (1 / 10)))
        [(round_double (7 / 10), Fin 1, Fin 0), (Fin (3 / 4), Fin 0, Fin 0)]
     = [(KFin 7, KFin 10, KFin 0), (KFin 8, KFin 0, KFin 0)]
   \<and> sorted_wrt (<) (map (voxel_key (round_double (1 / 10)))
        [(round_double (7 / 10), Fin 1, Fin 0), (Fin (3 / 4), Fin 0, Fin 0)])"
  using downsample_key_order
    [of "\<lparr>filepath = ''cloud.txt'',
          points = Some [(round_double (7 / 10), Fin 1, Fin 0), (Fin (3 / 4), Fin 0, Fin 0)]\<rparr>"
        "[(round_double (7 / 10), Fin 1, Fin 0), (Fin (3 / 4), Fin 0, Fin 0)]"
        "round_double (1 / 10)"]
  by (simp add: run_simps flt_def)

text \<open>
  C1, the claim as stated fails: the points \<open>(1,0,0)\<close> and \<open>(0,0,0)\<close> at voxel size 1
  have keys \<open>(1,0,0)\<close> and \<open>(0,0,0)\<close>; the second key sorts first, so the selected indices
  are \<open>[1, 0]\<close> and the output lists the second input point before the first.
\<close>

theorem downsample_index_order_counterexample:
  "fst (downsample \<lparr>filepath = ''cloud.txt'',
          points = Some [(Fin 1, Fin 0, Fin 0), (Fin 0, Fin 0, Fin 0)]\<rparr> (Fin 1))
     = Some [(Fin 0, Fin 0, Fin 0), (Fin 1, Fin 0, Fin 0)]
   \<and> \<not> sorted (downsample_indices (Fin 1) [(Fin 1, Fin 0, Fin 0), (Fin 0, Fin 0, Fin 0)])"
  by (simp add: run_simps)

section \<open>Voxel size is not validated\<close>

text \<open>
  C2 (amended). The claim asks for an \<open>InvalidArgument\<close> failure when the voxel size is
  zero or negative. The source has no check of \<open>voxel_size\<close> and raises nothing. What
  holds instead: for every loaded point set and every voxel size \<open>v \<le> 0\<close>, \<open>downsample\<close>
  returns a point set, and each of its points is a point of the input.
\<close>

theorem downsample_nonpositive_returns:
  assumes "points self = Some P" and "fle v (Fin 0)"
  shows "\<exists>out. fst (downsample self v) = Some out \<and> set out \<subseteq> set P"
  using assms(1) downsample_subset [of P v] by (simp add: downsample_Some)

theorem downsample_nonpositive_returns_witness:
  "fle (Fin (- 1)) (Fin 0)
   \<and> (\<exists>out. fst (downsample \<lparr>filepath = ''cloud.txt'',
                points = Some [(Fin 1, Fin 0, Fin 0), (Fin 2, Fin 0, Fin 0)]\<rparr> (Fin (- 1)))
            = Some out
         \<and> set out \<subseteq> set [(Fin 1, Fin 0, Fin 0), (Fin 2, Fin 0, Fin 0)])"
  using downsample_nonpositive_returns
    [of "\<lparr>filepath = ''cloud.txt'',
          points = Some [(Fin 1, Fin 0, Fin 0), (Fin 2, Fin 0, Fin 0)]\<rparr>"
        "[(Fin 1, Fin 0, Fin 0), (Fin 2, Fin 0, Fin 0)]" "Fin (- 1)"]
  by (simp add: fle_def)

text \<open>
  C2, the claim as stated fails: at voxel size \<open>-1\<close> the points \<open>(1,0,0)\<close> and \<open>(2,0,0)\<close>
  have keys \<open>(-1,0,0)\<close> and \<open>(-2,0,0)\<close>, and \<open>downsample\<close> returns both points, the second
  one first.
\<close>

theorem downsample_negative_counterexample:
  "fst (downsample \<lparr>filepath = ''cloud.txt'',
          points = Some [(Fin 1, Fin 0, Fin 0), (Fin 2, Fin 0, Fin 0)]\<rparr> (Fin (- 1)))
     = Some [(Fin 2, Fin 0, Fin 0), (Fin 1, Fin 0, Fin 0)]"
  by (simp add: run_simps)

text \<open>
  At voxel size 0 the quotients are infinities and NaNs. Rows with a NaN sort last and
  differ from every row, so both copies of the origin are kept. At the negative zero the
  infinities change sign, and with them the order of the first two rows.
\<close>

lemma downsample_zero_example:
  "fst (downsample \<lparr>filepath = ''cloud.txt'',
          points = Some [(Fin 0, Fin 0, Fin 0), (Fin 0, Fin 0, Fin 0), (Fin 1, Fin 0, Fin 0),
                         (Fin (- 1), Fin 0, Fin 0)]\<rparr> (Fin 0))
     = Some [(Fin (- 1), Fin 0, Fin 0), (Fin 1, Fin 0, Fin 0), (Fin 0, Fin 0, Fin 0),
             (Fin 0, Fin 0, Fin 0)]"
  by (simp add: run_simps)

lemma downsample_negative_zero_example:
  "fst (downsample \<lparr>filepath = ''cloud.txt'',
          points = Some [(Fin 0, Fin 0, Fin 0), (Fin 0, Fin 0, Fin 0), (Fin 1, Fin 0, Fin 0),
                         (Fin (- 1), Fin 0, Fin 0)]\<rparr> NZero)
     = Some [(Fin 1, Fin 0, Fin 0), (Fin (- 1), Fin 0, Fin 0), (Fin 0, Fin 0, Fin 0),
             (Fin 0, Fin 0, Fin 0)]"
  by (simp add: run_simps)

section \<open>One representative per voxel: the first occurrence\<close>




section \<open>Size of the output\<close>

text \<open>
  C4 (amended). For every loaded point set and voxel size \<open>v > 0\<close>, the length of the
  output is at most the length of the input, and the output of an empty point set is
  empty; when no voxel key of the input has a NaN, the length of the output equals the
  number of distinct voxel keys of the input. With a NaN in a key the equation fails,
  since such rows are never merged.
\<close>

theorem downsample_length:
  assumes "points self = Some P" and "flt (Fin 0) v"
  shows "\<exists>out. fst (downsample self v) = Some out
           \<and> length out \<le> length P
           \<and> (P = [] \<longrightarrow> out = [])
           \<and> ((\<forall>p \<in> set P. no_nan (voxel_key v p)) \<longrightarrow>
                 length out = card (set (map (voxel_key v) P)))"
proof -
  let ?out = "take_rows P (downsample_indices v P)"
  have le: "length ?out \<le> length P" by (rule downsample_length_le)
  then have "P = [] \<longrightarrow> ?out = []" by auto
  with le show ?thesis
    using assms(1) downsample_length_card [of P v] by (simp add: downsample_Some)
qed

theorem downsample_length_witness:
  "fst (downsample \<lparr>filepath = ''cloud.txt'',
          points = Some [(Fin 0, Fin 0, Fin 0), (round_double (5 / 100), Fin 0, Fin 0),
                         (Fin 1, Fin 0, Fin 0)]\<rparr> (Fin (1 / 2)))
     = Some [(Fin 0, Fin 0, Fin 0), (Fin 1, Fin 0, Fin 0)]
   \<and> card (set (map (voxel_key (Fin (1 / 2)))
        [(Fin 0, Fin 0, Fin 0), (round_double (5 / 100), Fin 0, Fin 0), (Fin 1, Fin 0, Fin 0)]))
      = 2"
  using downsample_length
    [of "\<lparr>filepath = ''cloud.txt'',
          points = Some [(Fin 0, Fin 0, Fin 0), (round_double (5 / 100), Fin 0, Fin 0),
                         (Fin 1, Fin 0, Fin 0)]\<rparr>"
        "[(Fin 0, Fin 0, Fin 0), (round_double (5 / 100), Fin 0, Fin 0), (Fin 1, Fin 0, Fin 0)]"
        "Fin (1 / 2)"]
  by (simp add: run_simps flt_def)

text \<open>
  C4, the claim as stated fails: two rows \<open>(0, nan, 0)\<close> at voxel size 1 have one
  distinct key, and the output has two points.
\<close>

theorem downsample_nan_length_counterexample:
  "fst (downsample \<lparr>filepath = ''cloud.txt'',
          points = Some [(Fin 0, NaN, Fin 0), (Fin 0, NaN, Fin 0)]\<rparr> (Fin 1))
     = Some [(Fin 0, NaN, Fin 0), (Fin 0, NaN, Fin 0)]
   \<and> card (set (map (voxel_key (Fin 1)) [(Fin 0, NaN, Fin 0), (Fin 0, NaN, Fin 0)])) = 1"
  by (simp add: run_simps)

section \<open>Output points are input points\<close>

text \<open>
  C5. For every loaded point set and voxel size \<open>v > 0\<close>, every point of the output is the
  point at some index of the input, all three coordinates unchanged.
\<close>

theorem downsample_membership:
  assumes "points self = Some P" and "flt (Fin 0) v"
  shows "\<exists>out. fst (downsample self v) = Some out
           \<and> (\<forall>q \<in> set out. \<exists>i < length P. q = P ! i)"
  using assms(1) downsample_indices_bound [of _ v P]
  by (auto simp add: downsample_Some take_rows_def)

theorem downsample_membership_witness:
  "\<exists>out. fst (downsample \<lparr>filepath = ''cloud.txt'',
          points = Some [(Fin 0, Fin 0, Fin 0), (round_double (5 / 100), Fin 0, Fin 0),
                         (Fin 1, Fin 0, Fin 0)]\<rparr> (Fin (1 / 2)))
          = Some out
       \<and> set out \<subseteq> set [(Fin 0, Fin 0, Fin 0), (round_double (5 / 100), Fin 0, Fin 0),
                            (Fin 1, Fin 0, Fin 0)]"
  using downsample_membership
    [of "\<lparr>filepath = ''cloud.txt'',
          points = Some [(Fin 0, Fin 0, Fin 0), (round_double (5 / 100), Fin 0, Fin 0),
                         (Fin 1, Fin 0, Fin 0)]\<rparr>"
        "[(Fin 0, Fin 0, Fin 0), (round_double (5 / 100), Fin 0, Fin 0), (Fin 1, Fin 0, Fin 0)]"
        "Fin (1 / 2)"]
  by (simp add: run_simps flt_def)

section \<open>The stored points are left alone\<close>

text \<open>
  C6. For every loader and every voxel size, valid or not, the loader after \<open>downsample\<close>
  is the loader before it: the stored points are not modified, whether a point set or
  \<open>None\<close> is returned.
\<close>

theorem downsample_keeps_loader:
  "snd (downsample self voxel_size) = self"
  by (simp add: downsample_def Let_def split: option.split)

theorem downsample_keeps_loader_witness:
  "snd (downsample \<lparr>filepath = ''cloud.txt'',
          points = Some [(Fin 1, Fin 0, Fin 0), (Fin 0, Fin 0, Fin 0)]\<rparr> (Fin 0))
     = \<lparr>filepath = ''cloud.txt'', points = Some [(Fin 1, Fin 0, Fin 0), (Fin 0, Fin 0, Fin 0)]\<rparr>"
  using downsample_keeps_loader
    [of "\<lparr>filepath = ''cloud.txt'',
          points = Some [(Fin 1, Fin 0, Fin 0), (Fin 0, Fin 0, Fin 0)]\<rparr>" "Fin 0"]
  by simp

section \<open>Downsampling twice\<close>

text \<open>
  C7. For every loaded point set in which no two points share a voxel key at voxel size
  \<open>v > 0\<close>, downsampling the output of \<open>downsample\<close> again at \<open>v\<close> returns that output
  unchanged, order included.
\<close>

theorem downsample_idempotent:
  assumes "points self = Some P" and "flt (Fin 0) v" and "distinct (map (voxel_key v) P)"
  shows "\<exists>out. fst (downsample self v) = Some out
           \<and> fst (downsample (self\<lparr>points := Some out\<rparr>) v) = Some out"
proof -
  let ?out = "take_rows P (downsample_indices v P)"
  have "fst (downsample (self\<lparr>points := Some ?out\<rparr>) v)
          = Some (take_rows ?out (downsample_indices v ?out))"
    by (rule downsample_Some) simp
  then show ?thesis
    using assms(1) downsample_fixed [of P v] by (simp add: downsample_Some)
qed

theorem downsample_idempotent_witness:
  "distinct (map (voxel_key (Fin 1)) [(Fin 1, Fin 0, Fin 0), (Fin 0, Fin 0, Fin 0)])
   \<and> fst (downsample \<lparr>filepath = ''cloud.txt'',
            points = Some [(Fin 1, Fin 0, Fin 0), (Fin 0, Fin 0, Fin 0)]\<rparr> (Fin 1))
       = Some [(Fin 0, Fin 0, Fin 0), (Fin 1, Fin 0, Fin 0)]
   \<and> fst (downsample \<lparr>filepath = ''cloud.txt'',
            points = Some [(Fin 0, Fin 0, Fin 0), (Fin 1, Fin 0, Fin 0)]\<rparr> (Fin 1))
       = Some [(Fin 0, Fin 0, Fin 0), (Fin 1, Fin 0, Fin 0)]"
  using downsample_idempotent
    [of "\<lparr>filepath = ''cloud.txt'',
          points = Some [(Fin 1, Fin 0, Fin 0), (Fin 0, Fin 0, Fin 0)]\<rparr>"
        "[(Fin 1, Fin 0, Fin 0), (Fin 0, Fin 0, Fin 0)]" "Fin 1"]
  by (simp add: run_simps flt_def)

section \<open>Keys are not range-checked\<close>

text \<open>
  C8 (amended). The claim asks for a \<open>NumericOverflow\<close> failure when a key component
  leaves the integer range of a voxel key. The source never converts the rounded rows to
  integers and raises nothing. What holds instead: for every loaded point set, voxel
  size \<open>v > 0\<close> and integer range \<open>[lo, hi]\<close>, when the key of some input point has a
  component outside the range, \<open>downsample\<close> returns a point set, and each of its points
  is a point of the input.
\<close>

theorem downsample_no_range_check:
  assumes "points self = Some P" and "flt (Fin 0) v"
    and "p \<in> set P" and "lo \<le> hi" and "key_overflows lo hi (voxel_key v p)"
  shows "\<exists>out. fst (downsample self v) = Some out \<and> set out \<subseteq> set P"
  using assms(1) downsample_subset [of P v] by (simp add: downsample_Some)

theorem downsample_no_range_check_witness:
  "key_overflows (- (2 ^ 63)) (2 ^ 63 - 1) (voxel_key (Fin 1) (Fin (2 ^ 64), Fin 0, Fin 0))
   \<and> (\<exists>out. fst (downsample \<lparr>filepath = ''cloud.txt'',
                points = Some [(Fin (2 ^ 64), Fin 0, Fin 0), (Fin 0, Fin 0, Fin 0)]\<rparr> (Fin 1))
              = Some out
          \<and> set out \<subseteq> set [(Fin (2 ^ 64), Fin 0, Fin 0), (Fin 0, Fin 0, Fin 0)])"
  using downsample_no_range_check
    [of "\<lparr>filepath = ''cloud.txt'',
          points = Some [(Fin (2 ^ 64), Fin 0, Fin 0), (Fin 0, Fin 0, Fin 0)]\<rparr>"
        "[(Fin (2 ^ 64), Fin 0, Fin 0), (Fin 0, Fin 0, Fin 0)]" "Fin 1"
        "(Fin (2 ^ 64), Fin 0, Fin 0)" "- (2 ^ 63)" "2 ^ 63 - 1"]
  by (simp add: voxel_key_def fdiv_def round_double_def pack_def ulp_of_def ilog2_def pow2_def
      rint_def compute_floorlog Let_def flt_def)

text \<open>
  C8, the claim as stated fails: at voxel size 1 the point \<open>(2^64, 0, 0)\<close> has the key
  component \<open>2^64\<close>, outside the signed 64-bit range, and \<open>downsample\<close> returns it.
\<close>

theorem downsample_overflow_counterexample:
  "key_overflows (- (2 ^ 63)) (2 ^ 63 - 1) (voxel_key (Fin 1) (Fin (2 ^ 64), Fin 0, Fin 0))
   \<and> fst (downsample \<lparr>filepath = ''cloud.txt'',
            points = Some [(Fin (2 ^ 64), Fin 0, Fin 0), (Fin 0, Fin 0, Fin 0)]\<rparr> (Fin 1))
       = Some [(Fin 0, Fin 0, Fin 0), (Fin (2 ^ 64), Fin 0, Fin 0)]"
  by (simp add: run_simps)

section \<open>No point set loaded\<close>

text \<open>
  C9. When no point set has been loaded (\<open>self.points\<close> is \<open>None\<close>), \<open>downsample\<close>
  returns \<open>None\<close> for every voxel size, and \<open>filter_by_y_range\<close> and \<open>get_summary\<close>
  return \<open>None\<close> as well; none of them raises.
\<close>

theorem unloaded_returns_None:
  assumes "points self = None"
  shows "fst (downsample self voxel_size) = None
       \<and> fst (filter_by_y_range self y_min y_max) = None
       \<and> fst (get_summary np_mean np_min np_max self) = Inr None"
  using assms by (simp add: downsample_def filter_by_y_range_def get_summary_def)

theorem unloaded_returns_None_witness:
  "fst (downsample \<lparr>filepath = ''cloud.txt'', points = None\<rparr> (Fin (1 / 2))) = None
   \<and> fst (filter_by_y_range \<lparr>filepath = ''cloud.txt'', points = None\<rparr> (Fin 0) (Fin 1)) = None
   \<and> fst (get_summary (\<lambda>P. []) (\<lambda>P. []) (\<lambda>P. []) \<lparr>filepath = ''cloud.txt'', points = None\<rparr>)
       = Inr None"
  using unloaded_returns_None
    [of "\<lparr>filepath = ''cloud.txt'', points = None\<rparr>" "Fin (1 / 2)" "Fin 0" "Fin 1"
        "\<lambda>P. []" "\<lambda>P. []" "\<lambda>P. []"]
  by simp

section \<open>Range filter\<close>

text \<open>
  C10. On a loaded point set, \<open>filter_by_y_range\<close> returns exactly the points whose second
  coordinate lies between \<open>y_min\<close> and \<open>y_max\<close>, both bounds included, unchanged and in
  their original relative order: the result is a subsequence of the stored points.
\<close>

theorem filter_by_y_range_exact:
  assumes "points self = Some P"
  shows "\<exists>out. fst (filter_by_y_range self y_min y_max) = Some out
           \<and> out = filter (\<lambda>p. fle y_min (fst (snd p)) \<and> fle (fst (snd p)) y_max) P
           \<and> subseq out P"
  using assms by (simp add: filter_by_y_range_def bool_index_map)

theorem filter_by_y_range_exact_witness:
  "fst (filter_by_y_range
         \<lparr>filepath = ''cloud.txt'',
            points = Some [(Fin 0, Fin 1, Fin 0), (Fin 7, Fin 5, Fin 0), (Fin 3, Fin 2, Fin 9),
                           (Fin 1, NaN, Fin 1), (Fin 4, NZero, Fin 1)]\<rparr> (Fin 0) (Fin 2))
     = Some [(Fin 0, Fin 1, Fin 0), (Fin 3, Fin 2, Fin 9), (Fin 4, NZero, Fin 1)]"
  using filter_by_y_range_exact
    [of "\<lparr>filepath = ''cloud.txt'',
            points = Some [(Fin 0, Fin 1, Fin 0), (Fin 7, Fin 5, Fin 0), (Fin 3, Fin 2, Fin 9),
                           (Fin 1, NaN, Fin 1), (Fin 4, NZero, Fin 1)]\<rparr>"
        "[(Fin 0, Fin 1, Fin 0), (Fin 7, Fin 5, Fin 0), (Fin 3, Fin 2, Fin 9),
          (Fin 1, NaN, Fin 1), (Fin 4, NZero, Fin 1)]" "Fin 0" "Fin 2"]
  by (simp add: fle_def)

end
